theory Spec2Isabelle
  imports Main
begin

section \<open>JavaScript values and objects\<close>

text \<open>
  The values that \<open>src/index.js\<close> can observe. It looks at a value only through
  \<open>typeof\<close>, \<open>instanceof Error\<close>, strict equality with \<open>undefined\<close>, \<open>null\<close> and
  \<open>false\<close>, and truthiness (\<open>||\<close>), so a number is an integer or NaN here. An object
  is a reference into the heap.
\<close>

datatype jsval =
    VUndefined
  | VNull
  | VBool bool
  | VNum int
  | VNaN
  | VBigInt int
  | VSymbol string
  | VStr string
  | VObj nat

datatype objkind = KPlain | KArray | KError | KFunction | KInherit jsval

text \<open>
  An object is its kind and its own enumerable string-keyed data properties, in the
  order \<open>Object.assign\<close> and \<open>JSON.stringify\<close> visit them. An array's elements are
  the properties \<open>''0''\<close>, \<open>''1''\<close>, ...; its \<open>length\<close> is not enumerable and is not
  listed. The kind gives the prototype chain. \<open>KPlain\<close>, \<open>KArray\<close>, \<open>KError\<close> and
  \<open>KFunction\<close> are an object as it was created, with the prototype of its class
  (\<open>KError\<close>: with \<open>Error.prototype\<close> on the chain), all of which end in
  \<open>Object.prototype\<close>. \<open>KInherit v\<close> is an ordinary object whose prototype is \<open>v\<close>,
  \<open>null\<close> or a reference to another object, as \<open>Object.create\<close> or an assignment to
  \<open>__proto__\<close> makes it.

  Every property listed is an own enumerable data property, and it is writable; every
  object is extensible. Properties that are not enumerable (such as \<open>name\<close> and
  \<open>length\<close> of a function) and accessor properties are not part of the model, with
  one exception: the accessor \<open>__proto__\<close> of \<open>Object.prototype\<close>, which an assignment
  to a key \<open>__proto__\<close> reaches (see \<open>obj_assign\<close>).
\<close>

type_synonym props = "(string \<times> jsval) list"

record jsobj =
  kind :: objkind
  props :: props

fun truthy :: "jsval \<Rightarrow> bool" where
  "truthy VUndefined = False"
| "truthy VNull = False"
| "truthy (VBool b) = b"
| "truthy (VNum n) = (n \<noteq> 0)"
| "truthy VNaN = False"
| "truthy (VBigInt n) = (n \<noteq> 0)"
| "truthy (VSymbol s) = True"
| "truthy (VStr s) = (s \<noteq> [])"
| "truthy (VObj a) = True"

text \<open>The operator \<open>a || b\<close> on values already evaluated.\<close>

definition js_or :: "jsval \<Rightarrow> jsval \<Rightarrow> jsval" where
  "js_or a b = (if truthy a then a else b)"

text \<open>Reading a property: \<open>undefined\<close> when the object has no such property.\<close>

definition get_prop :: "props \<Rightarrow> string \<Rightarrow> jsval" where
  "get_prop ps k = (case map_of ps k of None \<Rightarrow> VUndefined | Some v \<Rightarrow> v)"

text \<open>
  The assignment \<open>obj[k] = v\<close> on the properties of an ordinary object: an existing
  property keeps its place and takes the new value, a new one goes to the end.
\<close>

fun set_prop :: "string \<Rightarrow> jsval \<Rightarrow> props \<Rightarrow> props" where
  "set_prop k v [] = [(k, v)]"
| "set_prop k v ((k', v') # ps) =
     (if k' = k then (k, v) # ps else (k', v') # set_prop k v ps)"

section \<open>The heap, the sinks and the world\<close>

datatype severity = Fatal | Error | Warn | Info | Debug | Trace

text \<open>
  Modelled from the spec: the sink is the external structured logger (pino), which is
  not part of the repository. A sink has the options it was constructed with, the
  fields bound to it in binding order, and the sink it was derived from. Deriving a
  child makes a new sink that inherits the parent's options and bound fields and adds
  the new fields after them; the parent is not changed.
\<close>

record sink =
  s_level :: jsval
  s_enabled :: jsval
  bindings :: props
  parent :: "nat option"

text \<open>
  One invocation of a severity method of a sink: the sink, the method, the arguments
  in order, and the heap as it was at the call (the sink reads the objects then).
\<close>

record call =
  c_sink :: nat
  c_level :: severity
  c_args :: "jsval list"
  c_heap :: "jsobj list"

text \<open>
  The world: the heap of objects (a reference is an index; allocation appends), the
  store of sinks (likewise), the module constant \<open>baseLogger\<close>, and the log of sink
  method invocations so far.
\<close>

record world =
  heap :: "jsobj list"
  sinks :: "sink list"
  baseLogger :: nat
  calls :: "call list"

definition deref :: "jsobj list \<Rightarrow> nat \<Rightarrow> jsobj option" where
  "deref h a = (if a < length h then Some (h ! a) else None)"

text \<open>
  \<open>typeof v\<close>. A reference that the heap does not hold cannot occur in a running
  program; here and below it is given the answers of an empty ordinary object.
\<close>

fun typeof :: "jsobj list \<Rightarrow> jsval \<Rightarrow> string" where
  "typeof h VUndefined = ''undefined''"
| "typeof h VNull = ''object''"
| "typeof h (VBool b) = ''boolean''"
| "typeof h (VNum n) = ''number''"
| "typeof h VNaN = ''number''"
| "typeof h (VBigInt n) = ''bigint''"
| "typeof h (VSymbol s) = ''symbol''"
| "typeof h (VStr s) = ''string''"
| "typeof h (VObj a) =
     (case deref h a of
        Some ob \<Rightarrow> if kind ob = KFunction then ''function'' else ''object''
      | None \<Rightarrow> ''object'')"

text \<open>
  The prototype chain of an object of kind \<open>k\<close>, followed through the \<open>KInherit\<close>
  links to its end: the kind of the created object the chain leads to, or a
  \<open>KInherit\<close> kind when the chain ends in \<open>null\<close>. A chain has no cycle and so no more
  links than the heap has objects, which is the bound \<open>n\<close> that the callers give.
\<close>

fun proto_root :: "jsobj list \<Rightarrow> nat \<Rightarrow> objkind \<Rightarrow> objkind" where
  "proto_root h (Suc n) (KInherit (VObj b)) =
     (case deref h b of Some ob \<Rightarrow> proto_root h n (kind ob) | None \<Rightarrow> KInherit (VObj b))"
| "proto_root h n k = k"

text \<open>
  \<open>v instanceof Error\<close>: whether \<open>Error.prototype\<close> is on the prototype chain of \<open>v\<close>.
\<close>

fun instanceofError :: "jsobj list \<Rightarrow> jsval \<Rightarrow> bool" where
  "instanceofError h (VObj a) =
     (case deref h a of
        Some ob \<Rightarrow> proto_root h (length h) (kind ob) = KError
      | None \<Rightarrow> False)"
| "instanceofError h v = False"

text \<open>
  Whether an assignment to the key \<open>__proto__\<close>, on an object of kind \<open>k\<close> that has no
  own property of this name, reaches the accessor \<open>__proto__\<close> of \<open>Object.prototype\<close>:
  it does when the prototype chain ends in \<open>Object.prototype\<close> and no object on the
  way has an own property \<open>__proto__\<close>, which would be found first.
\<close>

fun proto_setter :: "jsobj list \<Rightarrow> nat \<Rightarrow> objkind \<Rightarrow> bool" where
  "proto_setter h (Suc n) (KInherit (VObj b)) =
     (case deref h b of
        Some ob \<Rightarrow> ''__proto__'' \<notin> fst ` set (props ob) \<and> proto_setter h n (kind ob)
      | None \<Rightarrow> False)"
| "proto_setter h n (KInherit v) = False"
| "proto_setter h n k = True"

definition has_proto_setter :: "jsobj list \<Rightarrow> objkind \<Rightarrow> bool" where
  "has_proto_setter h k = proto_setter h (length h) k"

text \<open>The own enumerable properties that \<open>Object.assign\<close> reads from a source.\<close>

fun own_props :: "jsobj list \<Rightarrow> jsval \<Rightarrow> props" where
  "own_props h (VObj a) = (case deref h a of Some ob \<Rightarrow> props ob | None \<Rightarrow> [])"
| "own_props h v = []"

text \<open>An object literal: a new ordinary object with the given properties.\<close>

definition new_object :: "props \<Rightarrow> world \<Rightarrow> nat \<times> world" where
  "new_object ps w =
     (length (heap w), w\<lparr>heap := heap w @ [\<lparr>kind = KPlain, props = ps\<rparr>]\<rparr>)"

text \<open>
  The ordinary assignment \<open>ob[k] = v\<close> to an ordinary object \<open>ob\<close> of the heap \<open>h\<close>.
  An own property takes the new value. Otherwise the prototype chain is consulted:
  for the key \<open>__proto__\<close> it leads to the setter of \<open>Object.prototype\<close> (see
  \<open>proto_setter\<close>), which makes \<open>v\<close> the prototype of \<open>ob\<close> when \<open>v\<close> is an object or
  \<open>null\<close>, does nothing for any other \<open>v\<close>, and in neither case makes a property; in
  every other case the property is added to \<open>ob\<close>. The code assigns only to the
  object that it has just made, to which nothing refers, so the new prototype chain
  has no cycle and the setter cannot fail.
\<close>

definition obj_assign :: "jsobj list \<Rightarrow> string \<Rightarrow> jsval \<Rightarrow> jsobj \<Rightarrow> jsobj" where
  "obj_assign h k v ob =
     (if k \<in> fst ` set (props ob) then ob\<lparr>props := set_prop k v (props ob)\<rparr>
      else if k = ''__proto__'' \<and> has_proto_setter h (kind ob) then
        (case v of
           VNull \<Rightarrow> ob\<lparr>kind := KInherit VNull\<rparr>
         | VObj b \<Rightarrow> ob\<lparr>kind := KInherit (VObj b)\<rparr>
         | _ \<Rightarrow> ob)
      else ob\<lparr>props := set_prop k v (props ob)\<rparr>)"

text \<open>The assignment \<open>a[k] = v\<close> to the object at reference \<open>a\<close>.\<close>

definition heap_set_prop :: "nat \<Rightarrow> string \<Rightarrow> jsval \<Rightarrow> world \<Rightarrow> world" where
  "heap_set_prop a k v w =
     (if a < length (heap w)
      then w\<lparr>heap := (heap w)[a := obj_assign (heap w) k v (heap w ! a)]\<rparr>
      else w)"

text \<open>
  \<open>Object.assign(target, source)\<close>: the source's own enumerable properties are
  assigned to the target one after the other, in the source's order, each by an
  ordinary assignment \<open>target[k] = v\<close>.
\<close>

definition object_assign :: "nat \<Rightarrow> jsval \<Rightarrow> world \<Rightarrow> world" where
  "object_assign t src w =
     foldl (\<lambda>w' (k, v). heap_set_prop t k v w') w (own_props (heap w) src)"

text \<open>
  Modelled from the spec: a severity method of the sink. The call is entered in the
  log; whether the sink writes a record is its own concern (its level and its
  \<open>enabled\<close> flag), and it changes neither the heap nor its arguments.
\<close>

definition pino_log :: "severity \<Rightarrow> nat \<Rightarrow> jsval list \<Rightarrow> world \<Rightarrow> world" where
  "pino_log lvl s args w =
     w\<lparr>calls := calls w @ [\<lparr>c_sink = s, c_level = lvl, c_args = args, c_heap = heap w\<rparr>]\<rparr>"

text \<open>
  Modelled from the spec: \<open>sink.child(fields)\<close>, the child-derivation operation of the
  sink. A reference that the sink store does not hold cannot occur; it is returned as
  it is.
\<close>

definition pino_child :: "nat \<Rightarrow> props \<Rightarrow> world \<Rightarrow> nat \<times> world" where
  "pino_child p bound w =
     (if p < length (sinks w)
      then (length (sinks w),
            w\<lparr>sinks := sinks w @
                 [\<lparr>s_level = s_level (sinks w ! p), s_enabled = s_enabled (sinks w ! p),
                   bindings = bindings (sinks w ! p) @ bound, parent = Some p\<rparr>]\<rparr>)
      else (p, w))"

text \<open>
  Modelled from the spec: \<open>pino(options)\<close>, the construction of a sink from its
  options object. The new sink has no bound fields and no parent.
\<close>

definition pino :: "props \<Rightarrow> sink" where
  "pino opts =
     \<lparr>s_level = get_prop opts ''level'', s_enabled = get_prop opts ''enabled'',
      bindings = [], parent = None\<rparr>"

section \<open>Module initialisation (lines 10 to 28)\<close>

text \<open>
  The configuration provider (the package \<open>config\<close>, which is not part of the
  repository) with its two keys: \<open>config.has k\<close> is whether the key is there,
  \<open>config.get k\<close> its value. The \<open>logger\<close> section is a mapping of options, as the
  data model of the specification has it. What \<open>config.get\<close> hands out is the
  package's own object, and what an assignment to it does is the package's choice,
  taken here as three parameters of the object: whether its properties are writable,
  whether it is extensible, and whether a proxy guards it and throws on every
  assignment. By default the package makes its objects immutable: not writable and,
  depending on the version, not extensible or guarded; they are writable and
  extensible only when the package is told to allow mutations. The process has its
  argument vector and its identifier.
\<close>

record cfgobj =
  cfg_props :: props
  cfg_writable :: bool
  cfg_extensible :: bool
  cfg_guarded :: bool

record config =
  cfg_logger :: "cfgobj option"
  cfg_appName :: "jsval option"

record process =
  argv :: "string list"
  pid :: nat

datatype exn = ConfigImmutable

text \<open>
  The assignment \<open>loggerConfig[k] = v\<close> of lines 15 and 16, which are not strict-mode
  code: an assignment that the object does not allow is passed over in silence,
  unless the object is guarded, and then it throws.
\<close>

definition cfg_assign :: "string \<Rightarrow> jsval \<Rightarrow> cfgobj \<Rightarrow> exn + cfgobj" where
  "cfg_assign k v c =
     (if cfg_guarded c then Inl ConfigImmutable
      else if k \<in> fst ` set (cfg_props c) then
        (if cfg_writable c then Inr (c\<lparr>cfg_props := set_prop k v (cfg_props c)\<rparr>) else Inr c)
      else
        (if cfg_extensible c then Inr (c\<lparr>cfg_props := set_prop k v (cfg_props c)\<rparr>) else Inr c))"

text \<open>
  Lines 10 to 16: the options handed to the sink constructor, or the exception. With
  no \<open>logger\<close> section the object is the module's own \<open>{}\<close>.
\<close>

definition loggerConfig :: "config \<Rightarrow> exn + props" where
  "loggerConfig cfg =
     (let lc = (case cfg_logger cfg of
                  Some c \<Rightarrow> c
                | None \<Rightarrow> \<lparr>cfg_props = [], cfg_writable = True, cfg_extensible = True,
                           cfg_guarded = False\<rparr>)
      in case cfg_assign ''level'' (js_or (get_prop (cfg_props lc) ''level'') (VStr ''info'')) lc of
           Inl e \<Rightarrow> Inl e
         | Inr lc \<Rightarrow>
             (case cfg_assign ''enabled''
                     (VBool (\<not> (get_prop (cfg_props lc) ''enabled'' = VBool False))) lc of
                Inl e \<Rightarrow> Inl e
              | Inr lc \<Rightarrow> Inr (cfg_props lc)))"

text \<open>Lines 20 to 23: \<open>appName\<close> stays \<open>undefined\<close> when it is not configured.\<close>

definition appName :: "config \<Rightarrow> jsval" where
  "appName cfg = (case cfg_appName cfg of Some v \<Rightarrow> v | None \<Rightarrow> VUndefined)"

text \<open>\<open>process.argv[i]\<close>: \<open>undefined\<close> beyond the end of the array.\<close>

definition argv_at :: "process \<Rightarrow> nat \<Rightarrow> jsval" where
  "argv_at pr i = (if i < length (argv pr) then VStr (argv pr ! i) else VUndefined)"

text \<open>Line 26: the value bound under \<open>_app\<close>.\<close>

definition app_identity :: "config \<Rightarrow> process \<Rightarrow> jsval" where
  "app_identity cfg pr = js_or (js_or (appName cfg) (argv_at pr 1)) (VNum (int (pid pr)))"

text \<open>
  Lines 18 to 28, the world after the module is loaded: the sink \<open>logger\<close> at
  reference 0, made from the options of lines 10 to 16, and its child \<open>baseLogger\<close>,
  no objects of the caller yet and no call made. The module is loaded only when lines
  10 to 16 have not thrown, which is what \<open>module_load\<close> says; where they throw there
  are no options and no world, and \<open>module_init\<close> then stands for lines 18 to 28 run
  on no options.
\<close>

definition module_init :: "config \<Rightarrow> process \<Rightarrow> world" where
  "module_init cfg pr =
     (let opts = (case loggerConfig cfg of Inr opts \<Rightarrow> opts | Inl e \<Rightarrow> []);
          w = \<lparr>heap = [], sinks = [pino opts], baseLogger = 0, calls = []\<rparr>;
          (b, w) = pino_child 0 [(''_app'', app_identity cfg pr)] w
      in w\<lparr>baseLogger := b\<rparr>)"

text \<open>Lines 10 to 28: loading the module gives the world, or the exception.\<close>

definition module_load :: "config \<Rightarrow> process \<Rightarrow> exn + world" where
  "module_load cfg pr =
     (case loggerConfig cfg of Inl e \<Rightarrow> Inl e | Inr opts \<Rightarrow> Inr (module_init cfg pr))"

section \<open>getLogger (lines 38 to 53)\<close>

text \<open>A parameter that the caller leaves out is \<open>undefined\<close>.\<close>

definition getLogger :: "jsval \<Rightarrow> jsval \<Rightarrow> world \<Rightarrow> nat \<times> world" where
  "getLogger moduleName classFileName w =
     (let newLogger = baseLogger w;
          (newLogger, w) =
            (if moduleName \<noteq> VUndefined
             then pino_child newLogger [(''_mod'', moduleName)] w
             else (newLogger, w));
          (newLogger, w) =
            (if classFileName \<noteq> VUndefined
             then pino_child newLogger [(''_cls'', classFileName)] w
             else (newLogger, w))
      in (newLogger, w))"

section \<open>ContextLogger (lines 56 to 173)\<close>

record ContextLogger =
  pinoLogger :: nat

definition fatal :: "ContextLogger \<Rightarrow> jsval list \<Rightarrow> world \<Rightarrow> world" where
  "fatal self args w = pino_log Fatal (pinoLogger self) args w"

definition error :: "ContextLogger \<Rightarrow> jsval list \<Rightarrow> world \<Rightarrow> world" where
  "error self args w = pino_log Error (pinoLogger self) args w"

definition warn :: "ContextLogger \<Rightarrow> jsval list \<Rightarrow> world \<Rightarrow> world" where
  "warn self args w = pino_log Warn (pinoLogger self) args w"

definition info :: "ContextLogger \<Rightarrow> jsval list \<Rightarrow> world \<Rightarrow> world" where
  "info self args w = pino_log Info (pinoLogger self) args w"

definition debug :: "ContextLogger \<Rightarrow> jsval list \<Rightarrow> world \<Rightarrow> world" where
  "debug self args w = pino_log Debug (pinoLogger self) args w"

definition trace :: "ContextLogger \<Rightarrow> jsval list \<Rightarrow> world \<Rightarrow> world" where
  "trace self args w = pino_log Trace (pinoLogger self) args w"

text \<open>
  The rest parameter \<open>args\<close> is an array of the call's own: \<open>unshift\<close> and the
  assignment to \<open>args[0]\<close> change this list and nothing of the caller's.
\<close>

definition debugF :: "ContextLogger \<Rightarrow> jsval \<Rightarrow> jsval list \<Rightarrow> world \<Rightarrow> world" where
  "debugF self functionName args w =
     (if length args > 0 then
        (let firstArg = hd args in
         if instanceofError (heap w) firstArg then
           pino_log Debug (pinoLogger self) args w
         else
           (let (args, w) =
              (if typeof (heap w) firstArg = ''string'' then
                 (let (ctx, w) = new_object [(''_fun'', functionName)] w
                  in (VObj ctx # args, w))
               else if typeof (heap w) firstArg = ''object'' \<and> firstArg \<noteq> VNull then
                 (let (newFirstArg, w) = new_object [] w;
                      w = object_assign newFirstArg firstArg w;
                      w = heap_set_prop newFirstArg ''_fun'' functionName w
                  in (args[0 := VObj newFirstArg], w))
               else (args, w))
            in pino_log Debug (pinoLogger self) args w))
      else w)"

definition traceF :: "ContextLogger \<Rightarrow> jsval \<Rightarrow> jsval list \<Rightarrow> world \<Rightarrow> world" where
  "traceF self functionName args w =
     (if length args > 0 then
        (let firstArg = hd args in
         if instanceofError (heap w) firstArg then
           pino_log Trace (pinoLogger self) args w
         else
           (let (args, w) =
              (if typeof (heap w) firstArg = ''string'' then
                 (let (ctx, w) = new_object [(''_fun'', functionName)] w
                  in (VObj ctx # args, w))
               else if typeof (heap w) firstArg = ''object'' \<and> firstArg \<noteq> VNull then
                 (let (newFirstArg, w) = new_object [] w;
                      w = object_assign newFirstArg firstArg w;
                      w = heap_set_prop newFirstArg ''_fun'' functionName w
                  in (args[0 := VObj newFirstArg], w))
               else (args, w))
            in pino_log Trace (pinoLogger self) args w))
      else w)"

section \<open>getContextLogger (lines 183 to 185)\<close>

definition getContextLogger :: "jsval \<Rightarrow> jsval \<Rightarrow> world \<Rightarrow> ContextLogger \<times> world" where
  "getContextLogger moduleName classFileName w =
     (let (l, w) = getLogger moduleName classFileName w
      in (\<lparr>pinoLogger = l\<rparr>, w))"

section \<open>Auxiliary notions for the statements\<close>

text \<open>
  What \<open>Object.assign({}, source)\<close> leaves in the new object: \<open>copy_obj\<close> for any
  source, the heap before the new object being \<open>h\<close>, and \<open>copy_props\<close> the properties
  when the source has no property named \<open>__proto__\<close> (lemma \<open>copy_obj_plain\<close>).
\<close>

definition copy_obj :: "jsobj list \<Rightarrow> props \<Rightarrow> jsobj" where
  "copy_obj h ps =
     foldl (\<lambda>ob (k, v). obj_assign (h @ [ob]) k v ob) \<lparr>kind = KPlain, props = []\<rparr> ps"

definition copy_props :: "props \<Rightarrow> props" where
  "copy_props ps = foldl (\<lambda>t (k, v). set_prop k v t) [] ps"

text \<open>
  The state of the module constant \<open>baseLogger\<close> in every world that the module can
  be in: it refers to a sink, and that sink has the process identity as its one bound
  field. Module initialisation establishes it and every operation of the module keeps
  it (lemmas \<open>base_bound_init\<close> to \<open>base_bound_traceF\<close>).
\<close>

definition base_bound :: "config \<Rightarrow> process \<Rightarrow> world \<Rightarrow> bool" where
  "base_bound cfg pr w =
     (baseLogger w < length (sinks w) \<and>
      bindings (sinks w ! baseLogger w) = [(''_app'', app_identity cfg pr)])"

text \<open>
  A concrete world for the examples: a configuration with an application name and no
  \<open>logger\<close> section, a process started as \<open>node /srv/app.js\<close>, and three objects of
  the caller on the heap: the ordinary object \<open>{id: 7, _fun: 'stale'}\<close>, the array
  \<open>[1, 2]\<close> and an \<open>Error\<close> (its \<open>message\<close> and \<open>stack\<close> are not enumerable).
\<close>

definition ex_config :: config where
  "ex_config = \<lparr>cfg_logger = None, cfg_appName = Some (VStr ''billing'')\<rparr>"

definition ex_process :: process where
  "ex_process = \<lparr>argv = [''node'', ''/srv/app.js''], pid = 4242\<rparr>"

definition ex_heap :: "jsobj list" where
  "ex_heap =
     [\<lparr>kind = KPlain, props = [(''id'', VNum 7), (''_fun'', VStr ''stale'')]\<rparr>,
      \<lparr>kind = KArray, props = [(''0'', VNum 1), (''1'', VNum 2)]\<rparr>,
      \<lparr>kind = KError, props = []\<rparr>]"

definition ex_world :: world where
  "ex_world = (module_init ex_config ex_process)\<lparr>heap := ex_heap\<rparr>"

definition ex_logger :: ContextLogger where
  "ex_logger = \<lparr>pinoLogger = 1\<rparr>"

text \<open>
  The world of the example with one object of the caller, as
  \<open>JSON.parse('{"__proto__": 5, "id": 7}')\<close> makes it: an ordinary object with the two
  own properties \<open>__proto__\<close> and \<open>id\<close>.
\<close>

definition ex_proto_heap :: "jsobj list" where
  "ex_proto_heap = [\<lparr>kind = KPlain, props = [(''__proto__'', VNum 5), (''id'', VNum 7)]\<rparr>]"

definition ex_proto_world :: world where
  "ex_proto_world = (module_init ex_config ex_process)\<lparr>heap := ex_proto_heap\<rparr>"

text \<open>
  The configuration \<open>{logger: {enabled: 0}}\<close> as the package hands it out by default:
  immutable without a guard (\<open>ex_frozen_config\<close>), and guarded (\<open>ex_guarded_config\<close>).
\<close>

definition ex_frozen_config :: config where
  "ex_frozen_config =
     \<lparr>cfg_logger = Some \<lparr>cfg_props = [(''enabled'', VNum 0)], cfg_writable = False,
                          cfg_extensible = False, cfg_guarded = False\<rparr>,
      cfg_appName = None\<rparr>"

definition ex_guarded_config :: config where
  "ex_guarded_config =
     \<lparr>cfg_logger = Some \<lparr>cfg_props = [(''enabled'', VNum 0)], cfg_writable = False,
                          cfg_extensible = False, cfg_guarded = True\<rparr>,
      cfg_appName = None\<rparr>"

section \<open>Properties and objects\<close>

lemma set_prop_fresh: "k \<notin> fst ` set ps \<Longrightarrow> set_prop k v ps = ps @ [(k, v)]"
  by (induction ps) auto

lemma foldl_set_prop_distinct:
  "distinct (map fst (acc @ ps)) \<Longrightarrow> foldl (\<lambda>t (k, v). set_prop k v t) acc ps = acc @ ps"
proof (induction ps arbitrary: acc)
  case Nil
  then show ?case by simp
next
  case (Cons p ps)
  obtain k v where p: "p = (k, v)" by (cases p)
  from Cons.prems have fresh: "k \<notin> fst ` set acc" by (auto simp: p)
  from Cons.prems have "distinct (map fst ((acc @ [(k, v)]) @ ps))" by (auto simp: p)
  from Cons.IH [OF this] show ?case by (simp add: p set_prop_fresh [OF fresh])
qed

text \<open>An object has no two properties of one name, and then the copy is the original.\<close>

lemma copy_props_distinct: "distinct (map fst ps) \<Longrightarrow> copy_props ps = ps"
  using foldl_set_prop_distinct [of "[]" ps] by (simp add: copy_props_def)

lemma get_prop_set_prop_same: "get_prop (set_prop k v ps) k = v"
  by (induction ps) (auto simp: get_prop_def)

lemma get_prop_set_prop_other: "k' \<noteq> k \<Longrightarrow> get_prop (set_prop k v ps) k' = get_prop ps k'"
  by (induction ps) (auto simp: get_prop_def)

lemma deref_append_old: "deref h a = Some ob \<Longrightarrow> deref (h @ xs) a = Some ob"
  by (auto simp: deref_def nth_append split: if_splits)

lemma deref_append_new: "deref (h @ [ob]) (length h) = Some ob"
  by (simp add: deref_def)

lemma deref_in_heap: "deref h a = Some ob \<Longrightarrow> a < length h"
  by (simp add: deref_def split: if_splits)

text \<open>Assignments to the newest object change that object and nothing else.\<close>

lemma heap_set_prop_last:
  "heap w = h @ [ob] \<Longrightarrow>
   heap_set_prop (length h) k v w = w\<lparr>heap := h @ [obj_assign (h @ [ob]) k v ob]\<rparr>"
  by (simp add: heap_set_prop_def)

lemma foldl_heap_set_prop_last:
  "heap w = h @ [ob] \<Longrightarrow>
   foldl (\<lambda>w' (k, v). heap_set_prop (length h) k v w') w ps =
   w\<lparr>heap := h @ [foldl (\<lambda>ob (k, v). obj_assign (h @ [ob]) k v ob) ob ps]\<rparr>"
proof (induction ps arbitrary: w ob)
  case Nil
  then show ?case by simp
next
  case (Cons p ps)
  obtain k v where p: "p = (k, v)" by (cases p)
  let ?ob = "obj_assign (h @ [ob]) k v ob"
  let ?w = "w\<lparr>heap := h @ [?ob]\<rparr>"
  have st: "heap_set_prop (length h) k v w = ?w"
    by (rule heap_set_prop_last [OF Cons.prems])
  have hw: "heap ?w = h @ [?ob]" by simp
  from Cons.IH [OF hw] show ?case by (simp add: p st)
qed

lemma object_assign_new:
  "object_assign (length (heap w)) src (w\<lparr>heap := heap w @ [\<lparr>kind = KPlain, props = []\<rparr>]\<rparr>) =
   w\<lparr>heap := heap w @
        [copy_obj (heap w) (own_props (heap w @ [\<lparr>kind = KPlain, props = []\<rparr>]) src)]\<rparr>"
  unfolding object_assign_def
  using foldl_heap_set_prop_last
    [of "w\<lparr>heap := heap w @ [\<lparr>kind = KPlain, props = []\<rparr>]\<rparr>" "heap w" "\<lparr>kind = KPlain, props = []\<rparr>"]
  by (simp add: copy_obj_def)

text \<open>
  An assignment to a key other than \<open>__proto__\<close> sets the own property, and a source
  that has no property \<open>__proto__\<close> is copied property by property.
\<close>

lemma obj_assign_key:
  "k \<noteq> ''__proto__'' \<Longrightarrow> obj_assign h k v ob = ob\<lparr>props := set_prop k v (props ob)\<rparr>"
  by (simp add: obj_assign_def)

lemma foldl_obj_assign_plain:
  "''__proto__'' \<notin> fst ` set ps \<Longrightarrow>
   foldl (\<lambda>ob (k, v). obj_assign (h @ [ob]) k v ob) ob ps =
   ob\<lparr>props := foldl (\<lambda>t (k, v). set_prop k v t) (props ob) ps\<rparr>"
proof (induction ps arbitrary: ob)
  case Nil
  then show ?case by simp
next
  case (Cons p ps)
  obtain k v where p: "p = (k, v)" by (cases p)
  from Cons.prems have k: "k \<noteq> ''__proto__''" and r: "''__proto__'' \<notin> fst ` set ps"
    by (auto simp: p)
  show ?case by (simp add: p obj_assign_key [OF k] Cons.IH [OF r])
qed

lemma copy_obj_plain:
  "''__proto__'' \<notin> fst ` set ps \<Longrightarrow> copy_obj h ps = \<lparr>kind = KPlain, props = copy_props ps\<rparr>"
  by (simp add: copy_obj_def copy_props_def foldl_obj_assign_plain)

text \<open>The prototype chain of an object as it was created.\<close>

lemma proto_root_created:
  "k \<in> {KPlain, KArray, KError, KFunction} \<Longrightarrow> proto_root h n k = k"
  by (cases n) auto

lemma has_proto_setter_created:
  "k \<in> {KPlain, KArray, KError, KFunction} \<Longrightarrow> has_proto_setter h k"
  by (cases "length h") (auto simp: has_proto_setter_def)

lemma instanceofError_created:
  "deref h a = Some ob \<Longrightarrow> kind ob \<in> {KPlain, KArray, KError, KFunction} \<Longrightarrow>
   instanceofError h (VObj a) = (kind ob = KError)"
  by (simp add: proto_root_created)

section \<open>The object branch of debugF and traceF\<close>

lemma debugF_object:
  assumes "deref (heap w) a = Some ob" and "\<not> instanceofError (heap w) (VObj a)"
    and "kind ob \<noteq> KFunction"
  shows "debugF self f (VObj a # rest) w =
         pino_log Debug (pinoLogger self) (VObj (length (heap w)) # rest)
           (w\<lparr>heap := heap w @
                [(copy_obj (heap w) (props ob))
                   \<lparr>props := set_prop ''_fun'' f (props (copy_obj (heap w) (props ob)))\<rparr>]\<rparr>)"
proof -
  have t: "typeof (heap w) (VObj a) = ''object''" using assms(1,3) by simp
  have o: "own_props (heap w @ [\<lparr>kind = KPlain, props = []\<rparr>]) (VObj a) = props ob"
    by (simp add: deref_append_old [OF assms(1)])
  show ?thesis
    using assms(2) t
    by (simp add: debugF_def new_object_def object_assign_new o heap_set_prop_last
        obj_assign_key del: typeof.simps instanceofError.simps own_props.simps)
qed

lemma traceF_object:
  assumes "deref (heap w) a = Some ob" and "\<not> instanceofError (heap w) (VObj a)"
    and "kind ob \<noteq> KFunction"
  shows "traceF self f (VObj a # rest) w =
         pino_log Trace (pinoLogger self) (VObj (length (heap w)) # rest)
           (w\<lparr>heap := heap w @
                [(copy_obj (heap w) (props ob))
                   \<lparr>props := set_prop ''_fun'' f (props (copy_obj (heap w) (props ob)))\<rparr>]\<rparr>)"
proof -
  have t: "typeof (heap w) (VObj a) = ''object''" using assms(1,3) by simp
  have o: "own_props (heap w @ [\<lparr>kind = KPlain, props = []\<rparr>]) (VObj a) = props ob"
    by (simp add: deref_append_old [OF assms(1)])
  show ?thesis
    using assms(2) t
    by (simp add: traceF_def new_object_def object_assign_new o heap_set_prop_last
        obj_assign_key del: typeof.simps instanceofError.simps own_props.simps)
qed

lemma not_error_plain:
  "deref h a = Some ob \<Longrightarrow> kind ob = KPlain \<or> kind ob = KArray \<Longrightarrow>
   \<not> instanceofError h (VObj a)"
  by (auto simp: proto_root_created)

text \<open>
  Whatever the arguments, \<open>debugF\<close> and \<open>traceF\<close> only add objects to the heap: every
  object that was there stays as it was. They touch neither the sinks nor
  \<open>baseLogger\<close>.
\<close>

lemma debugF_heap_extends: "\<exists>xs. heap (debugF self f args w) = heap w @ xs"
  by (simp add: debugF_def new_object_def object_assign_new heap_set_prop_last pino_log_def
      Let_def del: typeof.simps instanceofError.simps)

lemma traceF_heap_extends: "\<exists>xs. heap (traceF self f args w) = heap w @ xs"
  by (simp add: traceF_def new_object_def object_assign_new heap_set_prop_last pino_log_def
      Let_def del: typeof.simps instanceofError.simps)

lemma debugF_sinks:
  "sinks (debugF self f args w) = sinks w \<and> baseLogger (debugF self f args w) = baseLogger w"
  by (simp add: debugF_def new_object_def object_assign_new heap_set_prop_last pino_log_def
      Let_def del: typeof.simps instanceofError.simps)

lemma traceF_sinks:
  "sinks (traceF self f args w) = sinks w \<and> baseLogger (traceF self f args w) = baseLogger w"
  by (simp add: traceF_def new_object_def object_assign_new heap_set_prop_last pino_log_def
      Let_def del: typeof.simps instanceofError.simps)

section \<open>Module initialisation and sink derivation\<close>

lemma module_init_eq:
  "module_init cfg pr =
     \<lparr>heap = [],
      sinks = [pino (case loggerConfig cfg of Inr opts \<Rightarrow> opts | Inl e \<Rightarrow> []),
               \<lparr>s_level = s_level (pino (case loggerConfig cfg of Inr opts \<Rightarrow> opts | Inl e \<Rightarrow> [])),
                s_enabled = s_enabled (pino (case loggerConfig cfg of Inr opts \<Rightarrow> opts | Inl e \<Rightarrow> [])),
                bindings = [(''_app'', app_identity cfg pr)], parent = Some 0\<rparr>],
      baseLogger = 1, calls = []\<rparr>"
  by (simp add: module_init_def pino_child_def pino_def Let_def)

text \<open>
  Where the object \<open>loggerConfig\<close> can be assigned to (the module's own \<open>{}\<close>, or a
  section that the package hands out writable, extensible and unguarded), lines 15
  and 16 resolve the two options.
\<close>

lemma loggerConfig_assignable:
  assumes "cfg_logger cfg = None \<and> ps = [] \<or>
           (\<exists>c. cfg_logger cfg = Some c \<and> ps = cfg_props c \<and>
                cfg_writable c \<and> cfg_extensible c \<and> \<not> cfg_guarded c)"
  shows "loggerConfig cfg =
           Inr (set_prop ''enabled'' (VBool (get_prop ps ''enabled'' \<noteq> VBool False))
                 (set_prop ''level'' (js_or (get_prop ps ''level'') (VStr ''info'')) ps))"
  using assms
  by (auto simp: loggerConfig_def cfg_assign_def Let_def get_prop_set_prop_other)

lemma loggerConfig_defaults_assignable:
  assumes "cfg_logger cfg = None \<and> ps = [] \<or>
           (\<exists>c. cfg_logger cfg = Some c \<and> ps = cfg_props c \<and>
                cfg_writable c \<and> cfg_extensible c \<and> \<not> cfg_guarded c)"
  shows "\<exists>opts. loggerConfig cfg = Inr opts
           \<and> sinks (module_init cfg pr) ! 0 = pino opts
           \<and> (cfg_logger cfg = None \<longrightarrow>
                s_level (pino opts) = VStr ''info'' \<and> s_enabled (pino opts) = VBool True)
           \<and> s_enabled (pino opts) = VBool (get_prop ps ''enabled'' \<noteq> VBool False)"
proof -
  note l = loggerConfig_assignable [OF assms]
  have n: "cfg_logger cfg = None \<Longrightarrow> ps = []" using assms by auto
  have e: "js_or (get_prop [] ''level'') (VStr ''info'') = VStr ''info''"
    "get_prop [] ''enabled'' = VUndefined"
    "get_prop [(''level'', VStr ''info''), (''enabled'', VBool True)] ''level'' = VStr ''info''"
    "get_prop [(''level'', VStr ''info''), (''enabled'', VBool True)] ''enabled'' = VBool True"
    by (simp_all add: js_or_def get_prop_def)
  show ?thesis
    using n
    by (auto simp: l module_init_eq pino_def get_prop_set_prop_same get_prop_set_prop_other e)
qed

lemma getLogger_absent: "getLogger VUndefined VUndefined w = (baseLogger w, w)"
  by (simp add: getLogger_def)

lemma getLogger_both:
  assumes "baseLogger w < length (sinks w)" and "m \<noteq> VUndefined" and "c \<noteq> VUndefined"
  shows "getLogger m c w =
     (Suc (length (sinks w)),
      w\<lparr>sinks := sinks w @
         [\<lparr>s_level = s_level (sinks w ! baseLogger w),
           s_enabled = s_enabled (sinks w ! baseLogger w),
           bindings = bindings (sinks w ! baseLogger w) @ [(''_mod'', m)],
           parent = Some (baseLogger w)\<rparr>,
          \<lparr>s_level = s_level (sinks w ! baseLogger w),
           s_enabled = s_enabled (sinks w ! baseLogger w),
           bindings = bindings (sinks w ! baseLogger w) @ [(''_mod'', m), (''_cls'', c)],
           parent = Some (length (sinks w))\<rparr>]\<rparr>)"
  using assms by (simp add: getLogger_def pino_child_def Let_def nth_append)

lemma base_bound_init: "base_bound cfg pr (module_init cfg pr)"
  by (simp add: base_bound_def module_init_eq)

lemma base_bound_heap: "base_bound cfg pr w \<Longrightarrow> base_bound cfg pr (w\<lparr>heap := h\<rparr>)"
  by (simp add: base_bound_def)

lemma base_bound_getLogger:
  "base_bound cfg pr w \<Longrightarrow> base_bound cfg pr (snd (getLogger m c w))"
  by (auto simp: base_bound_def getLogger_def pino_child_def Let_def nth_append
      split: prod.splits if_splits)

lemma base_bound_getContextLogger:
  "base_bound cfg pr w \<Longrightarrow> base_bound cfg pr (snd (getContextLogger m c w))"
  using base_bound_getLogger [of cfg pr w m c]
  by (auto simp: getContextLogger_def split: prod.splits)

lemma base_bound_pino_log:
  "base_bound cfg pr w \<Longrightarrow> base_bound cfg pr (pino_log lvl s args w)"
  by (simp add: base_bound_def pino_log_def)

lemma base_bound_debugF:
  "base_bound cfg pr w \<Longrightarrow> base_bound cfg pr (debugF self f args w)"
  by (simp add: base_bound_def debugF_sinks)

lemma base_bound_traceF:
  "base_bound cfg pr w \<Longrightarrow> base_bound cfg pr (traceF self f args w)"
  by (simp add: base_bound_def traceF_sinks)

lemma ex_world_eq:
  "ex_world =
     \<lparr>heap = ex_heap,
      sinks = [\<lparr>s_level = VStr ''info'', s_enabled = VBool True, bindings = [], parent = None\<rparr>,
               \<lparr>s_level = VStr ''info'', s_enabled = VBool True,
                bindings = [(''_app'', VStr ''billing'')], parent = Some 0\<rparr>],
      baseLogger = 1, calls = []\<rparr>"
  by (simp add: ex_world_def module_init_eq ex_config_def ex_process_def pino_def
      loggerConfig_def cfg_assign_def Let_def get_prop_def js_or_def app_identity_def
      appName_def)

section \<open>The function-context methods\<close>

text \<open>
  When the first argument after the function name refers to an ordinary object \<open>ob\<close>
  (not \<open>null\<close>; its properties have distinct names, as those of every object do) that
  has no own property named \<open>__proto__\<close>, \<open>debugF\<close> makes exactly one call, the one
  that the plain method \<open>debug\<close> makes: its first argument is a new reference \<open>n\<close>,
  different from the caller's, to an ordinary object with the properties of \<open>ob\<close> and
  \<open>_fun\<close> set to the function name, and the remaining arguments follow unchanged and
  in order. \<open>traceF\<close> does the same through \<open>trace\<close>.
\<close>

lemma debugF_traceF_copy_without_proto:
  assumes "deref (heap w) a = Some ob" and "kind ob = KPlain"
    and "distinct (map fst (props ob))" and "''__proto__'' \<notin> fst ` set (props ob)"
  shows "(let n = length (heap w);
              cp = \<lparr>kind = KPlain, props = set_prop ''_fun'' f (props ob)\<rparr>;
              h' = heap w @ [cp]
          in n \<noteq> a \<and> deref h' n = Some cp
           \<and> debugF self f (VObj a # rest) w = debug self (VObj n # rest) (w\<lparr>heap := h'\<rparr>)
           \<and> calls (debugF self f (VObj a # rest) w) =
               calls w @ [\<lparr>c_sink = pinoLogger self, c_level = Debug,
                           c_args = VObj n # rest, c_heap = h'\<rparr>]
           \<and> traceF self f (VObj a # rest) w = trace self (VObj n # rest) (w\<lparr>heap := h'\<rparr>)
           \<and> calls (traceF self f (VObj a # rest) w) =
               calls w @ [\<lparr>c_sink = pinoLogger self, c_level = Trace,
                           c_args = VObj n # rest, c_heap = h'\<rparr>])"
proof -
  have e: "\<not> instanceofError (heap w) (VObj a)"
    using not_error_plain [OF assms(1)] assms(2) by simp
  have k: "kind ob \<noteq> KFunction" using assms(2) by simp
  have cp: "copy_obj (heap w) (props ob) = \<lparr>kind = KPlain, props = props ob\<rparr>"
    by (simp add: copy_obj_plain [OF assms(4)] copy_props_distinct [OF assms(3)])
  have na: "length (heap w) \<noteq> a" using deref_in_heap [OF assms(1)] by simp
  show ?thesis
    using na
    by (simp add: Let_def debugF_object [OF assms(1) e k] traceF_object [OF assms(1) e k] cp
        debug_def trace_def pino_log_def deref_append_new)
qed

lemma debugF_traceF_copy_without_proto_example:
  "deref (heap ex_world) 0 =
     Some \<lparr>kind = KPlain, props = [(''id'', VNum 7), (''_fun'', VStr ''stale'')]\<rparr>
   \<and> calls (debugF ex_logger (VStr ''load'') [VObj 0, VStr ''msg''] ex_world) =
       [\<lparr>c_sink = 1, c_level = Debug, c_args = [VObj 3, VStr ''msg''],
         c_heap = ex_heap @
           [\<lparr>kind = KPlain, props = [(''id'', VNum 7), (''_fun'', VStr ''load'')]\<rparr>]\<rparr>]
   \<and> calls (traceF ex_logger (VStr ''load'') [VObj 0, VStr ''msg''] ex_world) =
       [\<lparr>c_sink = 1, c_level = Trace, c_args = [VObj 3, VStr ''msg''],
         c_heap = ex_heap @
           [\<lparr>kind = KPlain, props = [(''id'', VNum 7), (''_fun'', VStr ''load'')]\<rparr>]\<rparr>]"
proof -
  let ?ob = "\<lparr>kind = KPlain, props = [(''id'', VNum 7), (''_fun'', VStr ''stale'')]\<rparr>"
  have h1: "deref (heap ex_world) 0 = Some ?ob"
    by (simp add: ex_world_eq ex_heap_def deref_def)
  have h2: "kind ?ob = KPlain" by simp
  have h3: "distinct (map fst (props ?ob))" by simp
  have h4: "''__proto__'' \<notin> fst ` set (props ?ob)" by simp
  have l: "length ex_heap = 3" "calls ex_world = []" "heap ex_world = ex_heap"
    by (simp_all add: ex_world_eq ex_heap_def)
  from debugF_traceF_copy_without_proto
    [OF h1 h2 h3 h4, of "VStr ''load''" ex_logger "[VStr ''msg'']"]
  show ?thesis
    using h1 by (simp add: Let_def l ex_logger_def debug_def trace_def pino_log_def)
qed

text \<open>
  Claim C1 fails on the code for an object with an own property \<open>__proto__\<close>. For the
  object \<open>{"__proto__": 5, "id": 7}\<close> of \<open>ex_proto_world\<close>, an ordinary object with
  distinct property names, the shallow copy with \<open>_fun\<close> set has the three properties
  \<open>__proto__\<close>, \<open>id\<close> and \<open>_fun\<close>. \<open>Object.assign\<close> assigns \<open>__proto__\<close> to the new
  object, which reaches the setter of \<open>Object.prototype\<close> and makes no property: the
  object that \<open>debugF\<close> and \<open>traceF\<close> hand to the sink is \<open>{id: 7, _fun: 'load'}\<close>.
\<close>

theorem debugF_traceF_proto_key_not_copied:
  "deref (heap ex_proto_world) 0 =
     Some \<lparr>kind = KPlain, props = [(''__proto__'', VNum 5), (''id'', VNum 7)]\<rparr>
   \<and> set_prop ''_fun'' (VStr ''load'') [(''__proto__'', VNum 5), (''id'', VNum 7)] =
       [(''__proto__'', VNum 5), (''id'', VNum 7), (''_fun'', VStr ''load'')]
   \<and> calls (debugF ex_logger (VStr ''load'') [VObj 0, VStr ''msg''] ex_proto_world) =
       [\<lparr>c_sink = 1, c_level = Debug, c_args = [VObj 1, VStr ''msg''],
         c_heap = ex_proto_heap @
           [\<lparr>kind = KPlain, props = [(''id'', VNum 7), (''_fun'', VStr ''load'')]\<rparr>]\<rparr>]
   \<and> calls (traceF ex_logger (VStr ''load'') [VObj 0, VStr ''msg''] ex_proto_world) =
       [\<lparr>c_sink = 1, c_level = Trace, c_args = [VObj 1, VStr ''msg''],
         c_heap = ex_proto_heap @
           [\<lparr>kind = KPlain, props = [(''id'', VNum 7), (''_fun'', VStr ''load'')]\<rparr>]\<rparr>]"
proof -
  let ?ob = "\<lparr>kind = KPlain, props = [(''__proto__'', VNum 5), (''id'', VNum 7)]\<rparr>"
  have w: "heap ex_proto_world = ex_proto_heap" "calls ex_proto_world = []"
    by (simp_all add: ex_proto_world_def module_init_eq)
  have l: "length ex_proto_heap = 1" by (simp add: ex_proto_heap_def)
  have h1: "deref (heap ex_proto_world) 0 = Some ?ob"
    by (simp add: w ex_proto_heap_def deref_def)
  have e: "\<not> instanceofError (heap ex_proto_world) (VObj 0)"
    by (rule not_error_plain [OF h1]) simp
  have k: "kind ?ob \<noteq> KFunction" by simp
  have s: "has_proto_setter h KPlain" for h by (simp add: has_proto_setter_created)
  have cp: "copy_obj ex_proto_heap [(''__proto__'', VNum 5), (''id'', VNum 7)] =
              \<lparr>kind = KPlain, props = [(''id'', VNum 7)]\<rparr>"
    by (simp add: copy_obj_def obj_assign_def s)
  have d: "calls (debugF ex_logger (VStr ''load'') [VObj 0, VStr ''msg''] ex_proto_world) =
       [\<lparr>c_sink = 1, c_level = Debug, c_args = [VObj 1, VStr ''msg''],
         c_heap = ex_proto_heap @
           [\<lparr>kind = KPlain, props = [(''id'', VNum 7), (''_fun'', VStr ''load'')]\<rparr>]\<rparr>]"
    unfolding debugF_object [OF h1 e k, of ex_logger "VStr ''load''" "[VStr ''msg'']"]
    by (simp add: w l cp pino_log_def ex_logger_def)
  have t: "calls (traceF ex_logger (VStr ''load'') [VObj 0, VStr ''msg''] ex_proto_world) =
       [\<lparr>c_sink = 1, c_level = Trace, c_args = [VObj 1, VStr ''msg''],
         c_heap = ex_proto_heap @
           [\<lparr>kind = KPlain, props = [(''id'', VNum 7), (''_fun'', VStr ''load'')]\<rparr>]\<rparr>]"
    unfolding traceF_object [OF h1 e k, of ex_logger "VStr ''load''" "[VStr ''msg'']"]
    by (simp add: w l cp pino_log_def ex_logger_def)
  have p: "set_prop ''_fun'' (VStr ''load'') [(''__proto__'', VNum 5), (''id'', VNum 7)] =
       [(''__proto__'', VNum 5), (''id'', VNum 7), (''_fun'', VStr ''load'')]"
    by simp
  from h1 p d t show ?thesis by (intro conjI)
qed

text \<open>
  Claim C2. When the first argument after the function name refers to an ordinary
  object \<open>ob\<close>, then after \<open>debugF\<close> or \<open>traceF\<close> has returned the caller's reference
  still holds \<open>ob\<close>: no property added, removed or changed.
\<close>

theorem debugF_traceF_caller_object_unchanged:
  assumes "deref (heap w) a = Some ob" and "kind ob = KPlain"
  shows "deref (heap (debugF self f (VObj a # rest) w)) a = Some ob
       \<and> deref (heap (traceF self f (VObj a # rest) w)) a = Some ob"
proof -
  have e: "\<not> instanceofError (heap w) (VObj a)"
    using not_error_plain [OF assms(1)] assms(2) by simp
  have k: "kind ob \<noteq> KFunction" using assms(2) by simp
  show ?thesis
    by (simp add: debugF_object [OF assms(1) e k] traceF_object [OF assms(1) e k]
        pino_log_def deref_append_old [OF assms(1)])
qed

theorem debugF_traceF_caller_object_unchanged_witness:
  "deref (heap ex_world) 0 =
     Some \<lparr>kind = KPlain, props = [(''id'', VNum 7), (''_fun'', VStr ''stale'')]\<rparr>
   \<and> deref (heap (debugF ex_logger (VStr ''load'') [VObj 0, VStr ''msg''] ex_world)) 0 =
       Some \<lparr>kind = KPlain, props = [(''id'', VNum 7), (''_fun'', VStr ''stale'')]\<rparr>
   \<and> deref (heap (traceF ex_logger (VStr ''load'') [VObj 0, VStr ''msg''] ex_world)) 0 =
       Some \<lparr>kind = KPlain, props = [(''id'', VNum 7), (''_fun'', VStr ''stale'')]\<rparr>"
proof -
  let ?ob = "\<lparr>kind = KPlain, props = [(''id'', VNum 7), (''_fun'', VStr ''stale'')]\<rparr>"
  have h1: "deref (heap ex_world) 0 = Some ?ob"
    by (simp add: ex_world_eq ex_heap_def deref_def)
  have h2: "kind ?ob = KPlain" by simp
  from debugF_traceF_caller_object_unchanged
    [OF h1 h2, of ex_logger "VStr ''load''" "[VStr ''msg'']"]
  show ?thesis using h1 by simp
qed

text \<open>
  Claim C3. \<open>debugF\<close> and \<open>traceF\<close> with the function name alone do nothing: the
  world, and with it the log of sink calls, is the one before.
\<close>

theorem debugF_traceF_no_args:
  "debugF self f [] w = w \<and> traceF self f [] w = w
   \<and> calls (debugF self f [] w) = calls w \<and> calls (traceF self f [] w) = calls w"
  by (simp add: debugF_def traceF_def)

theorem debugF_traceF_no_args_witness:
  "calls (debugF ex_logger (VStr ''load'') [] ex_world) = []
   \<and> calls (traceF ex_logger (VStr ''load'') [] ex_world) = []"
  using debugF_traceF_no_args [of ex_logger "VStr ''load''" ex_world]
  by (simp add: ex_world_eq)

text \<open>
  Claim C4. When the first argument after the function name is an instance of
  \<open>Error\<close>, \<open>debugF\<close> does what the plain \<open>debug\<close> does with the same arguments, and
  \<open>traceF\<close> what \<open>trace\<close> does; the heap, and so the error object, is as before.
\<close>

theorem debugF_traceF_error_unchanged:
  assumes "args \<noteq> []" and "instanceofError (heap w) (hd args)"
  shows "debugF self f args w = debug self args w
       \<and> traceF self f args w = trace self args w
       \<and> heap (debugF self f args w) = heap w
       \<and> heap (traceF self f args w) = heap w"
  using assms by (simp add: debugF_def traceF_def debug_def trace_def pino_log_def)

theorem debugF_traceF_error_unchanged_witness:
  "instanceofError (heap ex_world) (VObj 2)
   \<and> debugF ex_logger (VStr ''load'') [VObj 2, VStr ''msg''] ex_world =
       debug ex_logger [VObj 2, VStr ''msg''] ex_world
   \<and> traceF ex_logger (VStr ''load'') [VObj 2, VStr ''msg''] ex_world =
       trace ex_logger [VObj 2, VStr ''msg''] ex_world
   \<and> heap (debugF ex_logger (VStr ''load'') [VObj 2, VStr ''msg''] ex_world) = ex_heap"
proof -
  have h1: "[VObj 2, VStr ''msg''] \<noteq> []" by simp
  have h2: "instanceofError (heap ex_world) (hd [VObj 2, VStr ''msg''])"
    by (simp add: ex_world_eq ex_heap_def deref_def proto_root_created)
  have l: "heap ex_world = ex_heap" by (simp add: ex_world_eq)
  from debugF_traceF_error_unchanged [OF h1 h2, of ex_logger "VStr ''load''"]
  show ?thesis using h2 by (simp add: l debug_def pino_log_def)
qed

text \<open>
  Claim C5. When the first argument after the function name is a string \<open>s\<close>,
  \<open>debugF\<close> puts a new ordinary object with the one property \<open>_fun\<close>, the function
  name, in front of the arguments and calls \<open>debug\<close> with (context object, \<open>s\<close>,
  the rest); \<open>traceF\<close> likewise with \<open>trace\<close>.
\<close>

theorem debugF_traceF_string_context:
  "(let ctx = \<lparr>kind = KPlain, props = [(''_fun'', f)]\<rparr>;
        n = length (heap w);
        w' = w\<lparr>heap := heap w @ [ctx]\<rparr>
    in deref (heap w') n = Some ctx
     \<and> debugF self f (VStr s # rest) w = debug self (VObj n # VStr s # rest) w'
     \<and> traceF self f (VStr s # rest) w = trace self (VObj n # VStr s # rest) w')"
  by (simp add: Let_def debugF_def traceF_def debug_def trace_def new_object_def deref_def)

theorem debugF_traceF_string_context_witness:
  "calls (debugF ex_logger (VStr ''load'') [VStr ''just a string''] ex_world) =
     [\<lparr>c_sink = 1, c_level = Debug, c_args = [VObj 3, VStr ''just a string''],
       c_heap = ex_heap @ [\<lparr>kind = KPlain, props = [(''_fun'', VStr ''load'')]\<rparr>]\<rparr>]"
  using debugF_traceF_string_context [of "VStr ''load''" ex_world ex_logger "''just a string''" "[]"]
  by (simp add: Let_def ex_world_eq ex_heap_def ex_logger_def debug_def pino_log_def)

text \<open>
  Claim C6, as amended. When the first argument after the function name is
  \<open>undefined\<close>, \<open>null\<close>, a boolean, a number, a bigint, a symbol or a function,
  \<open>debugF\<close> does what the plain \<open>debug\<close> does with the same arguments and \<open>traceF\<close>
  what \<open>trace\<close> does. An array is not among them: \<open>typeof\<close> gives \<open>'object'\<close> for
  it, and it takes the object branch (lemma \<open>debugF_traceF_array\<close> below).
\<close>

theorem debugF_traceF_other_unchanged:
  assumes "v = VNull \<or> typeof (heap w) v \<in>
             {''undefined'', ''boolean'', ''number'', ''bigint'', ''symbol'', ''function''}"
  shows "debugF self f (v # rest) w = debug self (v # rest) w
       \<and> traceF self f (v # rest) w = trace self (v # rest) w"
proof -
  have ne: "\<not> instanceofError (heap w) v"
    using assms by (cases v) (auto simp: proto_root_created split: option.splits if_splits)
  have ns: "typeof (heap w) v \<noteq> ''string''" using assms by auto
  have no: "typeof (heap w) v \<noteq> ''object'' \<or> v = VNull" using assms by auto
  show ?thesis
    using ne ns no by (auto simp: debugF_def traceF_def debug_def trace_def)
qed

theorem debugF_traceF_other_unchanged_witness:
  "debugF ex_logger (VStr ''load'') [VNum 5, VStr ''msg''] ex_world =
     debug ex_logger [VNum 5, VStr ''msg''] ex_world
   \<and> debugF ex_logger (VStr ''load'') [VNull] ex_world = debug ex_logger [VNull] ex_world
   \<and> traceF ex_logger (VStr ''load'') [VBool False, VStr ''msg''] ex_world =
       trace ex_logger [VBool False, VStr ''msg''] ex_world"
proof -
  have h1: "VNum 5 = VNull \<or> typeof (heap ex_world) (VNum 5) \<in>
             {''undefined'', ''boolean'', ''number'', ''bigint'', ''symbol'', ''function''}"
    by simp
  have h2: "VNull = VNull \<or> typeof (heap ex_world) VNull \<in>
             {''undefined'', ''boolean'', ''number'', ''bigint'', ''symbol'', ''function''}"
    by simp
  have h3: "VBool False = VNull \<or> typeof (heap ex_world) (VBool False) \<in>
             {''undefined'', ''boolean'', ''number'', ''bigint'', ''symbol'', ''function''}"
    by simp
  from debugF_traceF_other_unchanged [OF h1, of ex_logger "VStr ''load''" "[VStr ''msg'']"]
    debugF_traceF_other_unchanged [OF h2, of ex_logger "VStr ''load''" "[]"]
    debugF_traceF_other_unchanged [OF h3, of ex_logger "VStr ''load''" "[VStr ''msg'']"]
  show ?thesis by blast
qed

text \<open>
  Claim C6 as stated fails for an array. With the array \<open>[1, 2]\<close> of the example
  world as the only argument, the first argument is neither an error, nor a string,
  nor an ordinary object, and \<open>debugF\<close> does not pass it on: the sink receives a
  reference to a new ordinary object \<open>{0: 1, 1: 2, _fun: 'load'}\<close>.
\<close>

theorem debugF_array_counterexample:
  "deref (heap ex_world) 1 = Some \<lparr>kind = KArray, props = [(''0'', VNum 1), (''1'', VNum 2)]\<rparr>
   \<and> \<not> instanceofError (heap ex_world) (VObj 1)
   \<and> typeof (heap ex_world) (VObj 1) \<noteq> ''string''
   \<and> debugF ex_logger (VStr ''load'') [VObj 1] ex_world \<noteq> debug ex_logger [VObj 1] ex_world
   \<and> calls (debug ex_logger [VObj 1] ex_world) =
       [\<lparr>c_sink = 1, c_level = Debug, c_args = [VObj 1], c_heap = ex_heap\<rparr>]
   \<and> calls (debugF ex_logger (VStr ''load'') [VObj 1] ex_world) =
       [\<lparr>c_sink = 1, c_level = Debug, c_args = [VObj 3],
         c_heap = ex_heap @
           [\<lparr>kind = KPlain,
             props = [(''0'', VNum 1), (''1'', VNum 2), (''_fun'', VStr ''load'')]\<rparr>]\<rparr>]"
proof -
  let ?ob = "\<lparr>kind = KArray, props = [(''0'', VNum 1), (''1'', VNum 2)]\<rparr>"
  have l: "length ex_heap = 3" "calls ex_world = []" "heap ex_world = ex_heap"
    by (simp_all add: ex_world_eq ex_heap_def)
  have h1: "deref (heap ex_world) 1 = Some ?ob"
    by (simp add: ex_world_eq ex_heap_def deref_def)
  have e: "\<not> instanceofError (heap ex_world) (VObj 1)"
    by (rule not_error_plain [OF h1]) simp
  have k: "kind ?ob \<noteq> KFunction" by simp
  have cp: "copy_obj ex_heap [(''0'', VNum 1), (''1'', VNum 2)] =
              \<lparr>kind = KPlain, props = [(''0'', VNum 1), (''1'', VNum 2)]\<rparr>"
    by (simp add: copy_obj_plain copy_props_def)
  have d: "calls (debugF ex_logger (VStr ''load'') [VObj 1] ex_world) =
       [\<lparr>c_sink = 1, c_level = Debug, c_args = [VObj 3],
         c_heap = ex_heap @
           [\<lparr>kind = KPlain,
             props = [(''0'', VNum 1), (''1'', VNum 2), (''_fun'', VStr ''load'')]\<rparr>]\<rparr>]"
    unfolding debugF_object [OF h1 e k, of ex_logger "VStr ''load''" "[]"]
    by (simp add: cp pino_log_def l ex_logger_def)
  have p: "calls (debug ex_logger [VObj 1] ex_world) =
       [\<lparr>c_sink = 1, c_level = Debug, c_args = [VObj 1], c_heap = ex_heap\<rparr>]"
    by (simp add: debug_def pino_log_def l ex_logger_def)
  have ne: "debugF ex_logger (VStr ''load'') [VObj 1] ex_world \<noteq> debug ex_logger [VObj 1] ex_world"
  proof
    assume "debugF ex_logger (VStr ''load'') [VObj 1] ex_world = debug ex_logger [VObj 1] ex_world"
    then have "calls (debugF ex_logger (VStr ''load'') [VObj 1] ex_world) =
               calls (debug ex_logger [VObj 1] ex_world)" by simp
    then show False unfolding d p by simp
  qed
  have t: "typeof (heap ex_world) (VObj 1) \<noteq> ''string''"
    using h1 by simp
  from h1 e t ne p d show ?thesis by (intro conjI)
qed

text \<open>
  What the code does with an array, or any other object that is neither an error nor
  a function: the object branch, as for an ordinary object.
\<close>

lemma debugF_traceF_array:
  assumes "deref (heap w) a = Some ob" and "kind ob = KArray"
    and "distinct (map fst (props ob))" and "''__proto__'' \<notin> fst ` set (props ob)"
  shows "debugF self f (VObj a # rest) w =
           debug self (VObj (length (heap w)) # rest)
             (w\<lparr>heap := heap w @ [\<lparr>kind = KPlain, props = set_prop ''_fun'' f (props ob)\<rparr>]\<rparr>)
       \<and> traceF self f (VObj a # rest) w =
           trace self (VObj (length (heap w)) # rest)
             (w\<lparr>heap := heap w @ [\<lparr>kind = KPlain, props = set_prop ''_fun'' f (props ob)\<rparr>]\<rparr>)"
proof -
  have e: "\<not> instanceofError (heap w) (VObj a)"
    using not_error_plain [OF assms(1)] assms(2) by simp
  have k: "kind ob \<noteq> KFunction" using assms(2) by simp
  show ?thesis
    by (simp add: debugF_object [OF assms(1) e k] traceF_object [OF assms(1) e k]
        copy_obj_plain [OF assms(4)] copy_props_distinct [OF assms(3)] debug_def trace_def)
qed



section \<open>The logger factory\<close>

text \<open>
  Claim C7. For a module name and a class or file name that are both given (neither
  is \<open>undefined\<close>), in every world that keeps \<open>base_bound\<close>, the logger returned by
  \<open>getContextLogger\<close> wraps a sink \<open>r\<close> that is not \<open>baseLogger\<close>. The base sink is as
  before, bound to the process identity alone; \<open>r\<close> is bound to the identity, the
  module and the class, in this order, which strictly includes the fields of the
  base; and \<open>r\<close> is the child of the module-level sink \<open>mc\<close>, itself the child of the
  base.
\<close>

theorem getContextLogger_bound_context:
  assumes "base_bound cfg pr w" and "m \<noteq> VUndefined" and "c \<noteq> VUndefined"
  shows "(case getContextLogger m c w of (lg, w') \<Rightarrow>
           (let r = pinoLogger lg; b = baseLogger w'; mc = length (sinks w)
            in b = baseLogger w \<and> r \<noteq> b \<and> r < length (sinks w')
             \<and> sinks w' ! b = sinks w ! b
             \<and> bindings (sinks w' ! b) = [(''_app'', app_identity cfg pr)]
             \<and> bindings (sinks w' ! r) =
                 [(''_app'', app_identity cfg pr), (''_mod'', m), (''_cls'', c)]
             \<and> set (bindings (sinks w' ! b)) \<subset> set (bindings (sinks w' ! r))
             \<and> parent (sinks w' ! r) = Some mc
             \<and> bindings (sinks w' ! mc) = [(''_app'', app_identity cfg pr), (''_mod'', m)]
             \<and> parent (sinks w' ! mc) = Some b))"
proof -
  from assms(1) have b: "baseLogger w < length (sinks w)"
    and bb: "bindings (sinks w ! baseLogger w) = [(''_app'', app_identity cfg pr)]"
    by (simp_all add: base_bound_def)
  show ?thesis
    using b bb
    by (auto simp: getContextLogger_def getLogger_both [OF b assms(2,3)] Let_def nth_append)
qed

theorem getContextLogger_bound_context_witness:
  "base_bound ex_config ex_process ex_world
   \<and> baseLogger ex_world = 1
   \<and> fst (getContextLogger (VStr ''orders'') (VStr ''OrderService'') ex_world) =
       \<lparr>pinoLogger = 3\<rparr>
   \<and> bindings (sinks (snd (getContextLogger (VStr ''orders'') (VStr ''OrderService'') ex_world)) ! 3) =
       [(''_app'', VStr ''billing''), (''_mod'', VStr ''orders''), (''_cls'', VStr ''OrderService'')]
   \<and> parent (sinks (snd (getContextLogger (VStr ''orders'') (VStr ''OrderService'') ex_world)) ! 3) =
       Some 2"
proof -
  have h1: "base_bound ex_config ex_process ex_world"
    unfolding ex_world_def by (rule base_bound_heap [OF base_bound_init])
  have h2: "VStr ''orders'' \<noteq> VUndefined" by simp
  have h3: "VStr ''OrderService'' \<noteq> VUndefined" by simp
  have i: "app_identity ex_config ex_process = VStr ''billing''"
    by (simp add: app_identity_def appName_def js_or_def ex_config_def)
  have l: "baseLogger ex_world = 1" "length (sinks ex_world) = 2"
    by (simp_all add: ex_world_eq)
  obtain lg w' where g: "getContextLogger (VStr ''orders'') (VStr ''OrderService'') ex_world = (lg, w')"
    by (cases "getContextLogger (VStr ''orders'') (VStr ''OrderService'') ex_world")
  have r: "pinoLogger lg = 3"
    using g l by (auto simp: getContextLogger_def getLogger_def pino_child_def Let_def)
  from getContextLogger_bound_context [OF h1 h2 h3]
  show ?thesis
    using h1 r by (simp add: g Let_def i l)
qed

text \<open>
  Claim C8 fails on the code for a \<open>logger\<close> section that the package hands out
  immutable, as it does by default. For \<open>{logger: {enabled: 0}}\<close>, not writable and
  not extensible, the assignments of lines 15 and 16 are passed over: the options
  reach the sink constructor as they were configured, with \<open>enabled\<close> the number 0 and
  not the boolean \<open>true\<close>, and with no \<open>level\<close>. Where the package guards the section,
  the assignment of line 15 throws and the module is not loaded. (With no section, and
  with a section that can be assigned to, the options are resolved as the claim says:
  lemma \<open>loggerConfig_defaults_assignable\<close>.)
\<close>

theorem loggerConfig_immutable_section:
  "loggerConfig ex_frozen_config = Inr [(''enabled'', VNum 0)]
   \<and> module_load ex_frozen_config ex_process = Inr (module_init ex_frozen_config ex_process)
   \<and> s_enabled (sinks (module_init ex_frozen_config ex_process) ! 0) = VNum 0
   \<and> s_level (sinks (module_init ex_frozen_config ex_process) ! 0) = VUndefined
   \<and> loggerConfig ex_guarded_config = Inl ConfigImmutable
   \<and> module_load ex_guarded_config ex_process = Inl ConfigImmutable"
proof -
  have f: "loggerConfig ex_frozen_config = Inr [(''enabled'', VNum 0)]"
    by (simp add: loggerConfig_def cfg_assign_def ex_frozen_config_def)
  have g: "loggerConfig ex_guarded_config = Inl ConfigImmutable"
    by (simp add: loggerConfig_def cfg_assign_def ex_guarded_config_def)
  show ?thesis
    by (simp add: f g module_load_def module_init_eq pino_def get_prop_def)
qed

text \<open>
  Claim C9, as amended. The one field bound to \<open>baseLogger\<close> is \<open>_app\<close>. Its value is
  the configured \<open>appName\<close> when one is configured and is truthy (a string that is
  not empty); otherwise the invocation argument \<open>process.argv[1]\<close> when it is there
  and not empty; otherwise the process identifier.
\<close>

theorem app_identity_precedence:
  "(let w = module_init cfg pr; idv = get_prop (bindings (sinks w ! baseLogger w)) ''_app''
    in bindings (sinks w ! baseLogger w) = [(''_app'', idv)]
     \<and> (\<forall>v. cfg_appName cfg = Some v \<and> truthy v \<longrightarrow> idv = v)
     \<and> (cfg_appName cfg = None \<or> (\<exists>v. cfg_appName cfg = Some v \<and> \<not> truthy v) \<longrightarrow>
          (1 < length (argv pr) \<and> argv pr ! 1 \<noteq> [] \<longrightarrow> idv = VStr (argv pr ! 1))
        \<and> (\<not> (1 < length (argv pr) \<and> argv pr ! 1 \<noteq> []) \<longrightarrow> idv = VNum (int (pid pr)))))"
  by (auto simp: Let_def module_init_eq get_prop_def app_identity_def js_or_def appName_def
      argv_at_def)

theorem app_identity_precedence_witness:
  "get_prop (bindings (sinks (module_init ex_config ex_process)
                        ! baseLogger (module_init ex_config ex_process))) ''_app'' =
     VStr ''billing''
   \<and> get_prop (bindings (sinks (module_init \<lparr>cfg_logger = None, cfg_appName = None\<rparr> ex_process)
                  ! baseLogger (module_init \<lparr>cfg_logger = None, cfg_appName = None\<rparr> ex_process)))
       ''_app'' = VStr ''/srv/app.js''
   \<and> get_prop (bindings (sinks (module_init \<lparr>cfg_logger = None, cfg_appName = None\<rparr>
                                   \<lparr>argv = [''node''], pid = 4242\<rparr>)
                  ! baseLogger (module_init \<lparr>cfg_logger = None, cfg_appName = None\<rparr>
                                   \<lparr>argv = [''node''], pid = 4242\<rparr>)))
       ''_app'' = VNum 4242"
proof -
  have a: "cfg_appName ex_config = Some (VStr ''billing'') \<and> truthy (VStr ''billing'')"
    by (simp add: ex_config_def)
  have b: "cfg_appName \<lparr>cfg_logger = None, cfg_appName = None\<rparr> = None" by simp
  have c: "1 < length (argv ex_process) \<and> argv ex_process ! 1 \<noteq> []"
    "argv ex_process ! 1 = ''/srv/app.js''"
    by (simp_all add: ex_process_def)
  have d: "\<not> (1 < length (argv \<lparr>argv = [''node''], pid = 4242\<rparr>)
              \<and> argv \<lparr>argv = [''node''], pid = 4242\<rparr> ! 1 \<noteq> [])"
    "int (pid \<lparr>argv = [''node''], pid = 4242\<rparr>) = 4242"
    by simp_all
  note x = app_identity_precedence [of ex_config ex_process, unfolded Let_def]
  note y = app_identity_precedence
    [of "\<lparr>cfg_logger = None, cfg_appName = None\<rparr>" ex_process, unfolded Let_def]
  note z = app_identity_precedence
    [of "\<lparr>cfg_logger = None, cfg_appName = None\<rparr>" "\<lparr>argv = [''node''], pid = 4242\<rparr>",
     unfolded Let_def]
  note w1 = x [THEN conjunct2, THEN conjunct1, THEN spec, THEN mp, OF a]
  note w2 = y [THEN conjunct2, THEN conjunct2, THEN mp, OF disjI1 [OF b], THEN conjunct1,
      THEN mp, OF c(1), unfolded c(2)]
  note w3 = z [THEN conjunct2, THEN conjunct2, THEN mp, OF disjI1 [OF b], THEN conjunct2,
      THEN mp, OF d(1), unfolded d(2)]
  from w1 w2 w3 show ?thesis by (intro conjI)
qed

text \<open>
  Claim C9 as stated fails when the configured \<open>appName\<close> is the empty string: it is
  configured, and the value bound under \<open>_app\<close> is the invocation argument.
\<close>

theorem app_identity_empty_appName_counterexample:
  "cfg_appName \<lparr>cfg_logger = None, cfg_appName = Some (VStr '''')\<rparr> = Some (VStr '''')
   \<and> get_prop (bindings (sinks (module_init \<lparr>cfg_logger = None, cfg_appName = Some (VStr '''')\<rparr>
                                    \<lparr>argv = [''node'', ''/srv/app.js''], pid = 4242\<rparr>)
                 ! baseLogger (module_init \<lparr>cfg_logger = None, cfg_appName = Some (VStr '''')\<rparr>
                                    \<lparr>argv = [''node'', ''/srv/app.js''], pid = 4242\<rparr>)))
        ''_app'' = VStr ''/srv/app.js''
   \<and> VStr ''/srv/app.js'' \<noteq> VStr ''''"
  by (simp add: module_init_eq get_prop_def app_identity_def js_or_def appName_def argv_at_def)

end
